theory Spec2Isabelle
  imports Main "HOL-Library.FSet" "HOL-Library.Char_ord" "HOL-Library.List_Lexorder"
begin

section \<open>JavaScript values used by the course router\<close>

text \<open>
  The numbers that occur in \<^verbatim>\<open>src/api/courses.js\<close> are results of \<^verbatim>\<open>parseInt\<close>:
  an integer or \<^verbatim>\<open>NaN\<close>. Negative zero is represented by \<open>Num 0\<close> (both zeros are falsy),
  and integers are exact.
\<close>

datatype jsnum = NaN | Num int

datatype jsval =
    JUndefined
  | JNull
  | JBool bool
  | JNum jsnum
  | JStr string
  | JArr "jsval list"
  | JObj "(string \<times> jsval) list"

text \<open>Truthiness, as tested by \<^verbatim>\<open>if (result)\<close> and by \<^verbatim>\<open>||\<close>.\<close>

fun truthy :: "jsval \<Rightarrow> bool" where
  "truthy JUndefined = False"
| "truthy JNull = False"
| "truthy (JBool b) = b"
| "truthy (JNum NaN) = False"
| "truthy (JNum (Num n)) = (n \<noteq> 0)"
| "truthy (JStr s) = (s \<noteq> [])"
| "truthy (JArr xs) = True"
| "truthy (JObj kvs) = True"

text \<open>Property access \<^verbatim>\<open>v.k\<close> on a value that is neither \<^verbatim>\<open>undefined\<close> nor \<^verbatim>\<open>null\<close>.\<close>

fun getprop :: "jsval \<Rightarrow> string \<Rightarrow> jsval" where
  "getprop (JObj kvs) k = (case map_of kvs k of Some v \<Rightarrow> v | None \<Rightarrow> JUndefined)"
| "getprop v k = JUndefined"

text \<open>
  A parsed query-string value (\<^verbatim>\<open>req.query.page\<close>): a string, an array or a nested
  object; an absent parameter is \<open>None\<close> (\<^verbatim>\<open>undefined\<close>).
\<close>

datatype qval = QStr string | QArr "qval list" | QObj "(string \<times> qval) list"

fun join_comma :: "string list \<Rightarrow> string" where
  "join_comma [] = []"
| "join_comma [s] = s"
| "join_comma (s # t # ss) = s @ '','' @ join_comma (t # ss)"

fun qToString :: "qval \<Rightarrow> string" where
  "qToString (QStr s) = s"
| "qToString (QArr xs) = join_comma (map qToString xs)"
| "qToString (QObj kvs) = ''[object Object]''"

definition toStringOpt :: "qval option \<Rightarrow> string" where
  "toStringOpt q = (case q of None \<Rightarrow> ''undefined'' | Some v \<Rightarrow> qToString v)"

subsection \<open>\<^verbatim>\<open>parseInt\<close> with no radix argument\<close>

text \<open>
  The builtin is modelled on byte strings with exact integers: the six ASCII white-space
  characters are skipped (not the other Unicode spaces), and the value of the digits is
  not rounded to a double, so that a value beyond \<open>2 ^ 53\<close> stays exact and no
  \<^verbatim>\<open>Infinity\<close> arises.
\<close>

definition is_space :: "char \<Rightarrow> bool" where
  "is_space c = (c \<in> set [CHR '' '', CHR 0x09, CHR 0x0A, CHR 0x0B, CHR 0x0C, CHR 0x0D])"

definition digit_val :: "char \<Rightarrow> nat option" where
  "digit_val c =
     (let n = (of_char c :: nat) in
      if 48 \<le> n \<and> n \<le> 57 then Some (n - 48)
      else if 97 \<le> n \<and> n \<le> 122 then Some (n - 87)
      else if 65 \<le> n \<and> n \<le> 90 then Some (n - 55)
      else None)"

definition is_digit :: "nat \<Rightarrow> char \<Rightarrow> bool" where
  "is_digit radix c = (case digit_val c of None \<Rightarrow> False | Some d \<Rightarrow> d < radix)"

definition digits_value :: "nat \<Rightarrow> string \<Rightarrow> int" where
  "digits_value radix z =
     foldl (\<lambda>acc c. acc * int radix + int (case digit_val c of None \<Rightarrow> 0 | Some d \<Rightarrow> d)) 0 z"

definition parseDigits :: "nat \<Rightarrow> string \<Rightarrow> int \<Rightarrow> jsnum" where
  "parseDigits radix s sign =
     (let z = takeWhile (is_digit radix) s
      in if z = [] then NaN else Num (sign * digits_value radix z))"

definition stripPrefix :: "string \<Rightarrow> int \<Rightarrow> jsnum" where
  "stripPrefix s sign =
     (case s of
        c0 # c1 # rest \<Rightarrow>
          if c0 = CHR ''0'' \<and> (c1 = CHR ''x'' \<or> c1 = CHR ''X'')
          then parseDigits 16 rest sign
          else parseDigits 10 s sign
      | _ \<Rightarrow> parseDigits 10 s sign)"

definition parseIntStr :: "string \<Rightarrow> jsnum" where
  "parseIntStr input =
     (case dropWhile is_space input of
        [] \<Rightarrow> NaN
      | c # rest \<Rightarrow>
          if c = CHR ''-'' then stripPrefix rest (- 1)
          else if c = CHR ''+'' then stripPrefix rest 1
          else stripPrefix (c # rest) 1)"

definition parseInt :: "qval option \<Rightarrow> jsnum" where
  "parseInt q = parseIntStr (toStringOpt q)"

text \<open>\<^verbatim>\<open>n || 1\<close> on a number.\<close>

definition or_one :: "jsnum \<Rightarrow> jsnum" where
  "or_one n = (if truthy (JNum n) then n else Num 1)"

section \<open>Requests, collaborators and outcomes\<close>

type_synonym ident = string

datatype role = Admin | Instructor | Student

datatype http_method = GET | HEAD | POST | PUT | PATCH | DELETE

text \<open>
  A request as the router of \<^verbatim>\<open>src/api/courses.js\<close> sees it. \<open>req_path\<close> is the URL path
  below the mount point \<^verbatim>\<open>/courses\<close>, split at \<^verbatim>\<open>/\<close> with empty segments dropped.
  \<open>params\<close> is \<^verbatim>\<open>req.params\<close>, filled in by the matching route; \<open>user\<close> is the identity
  context that authentication attaches to the request.
\<close>

record request =
  req_method :: http_method
  req_path :: "string list"
  query :: "(string \<times> qval) list"
  body :: jsval
  credentials :: "string option"
  params :: "(string \<times> string) list"
  user :: "(ident \<times> role) option"

definition courseId :: "request \<Rightarrow> string" where
  "courseId req = (case map_of (params req) ''courseId'' of Some c \<Rightarrow> c | None \<Rightarrow> ''undefined'')"

record account =
  user_name :: string
  user_email :: string
  user_role :: role

record course =
  course_subject :: string
  course_number :: string
  course_term :: string
  instructorId :: ident
  students :: "ident fset"

text \<open>
  The state outside the router: the document store (users, courses) and the directory
  \<^verbatim>\<open>media/rosters\<close> that \<^verbatim>\<open>express.static\<close> serves.
\<close>

record state =
  users :: "ident \<rightharpoonup> account"
  courses :: "ident \<rightharpoonup> course"
  rosters :: "string list \<rightharpoonup> string"

datatype error = TypeError | NotFoundError | DependencyError

datatype deny_reason = NotOwner | InsufficientRole | NotEnrolled

datatype reject = Unauthenticated | Denied deny_reason | Invalid

datatype mw =
    RequireAuthentication
  | AuthorizeAdminAccess
  | AuthorizeCourseRelatedAccess
  | ValidateCourseId
  | ValidateCourseBody
  | ValidateInstructorId
  | ValidateEnrollmentBody

text \<open>The functions of \<^verbatim>\<open>models/course\<close> that the handlers call, with their arguments.\<close>

datatype model_call =
    GetCoursePage jsnum "qval option" "qval option" "qval option"
  | InsertNewCourse jsval
  | GetCourseById string
  | UpdateCourseById string request
  | DeleteCourseById string
  | UpdateEnrollment jsval jsval string
  | FetchStudents string
  | FetchAssignments string
  | CreateCsv string

text \<open>
  The modules \<^verbatim>\<open>lib/auth\<close>, \<^verbatim>\<open>lib/validation\<close> and \<^verbatim>\<open>models/course\<close> are required
  by \<^verbatim>\<open>courses.js\<close> but are not part of the source at hand, and \<^verbatim>\<open>express.static\<close> is
  library code. The router is therefore modelled over an environment that supplies
  them. A middleware either ends the request (\<open>Inl\<close>) or calls \<^verbatim>\<open>next()\<close>;
  authentication may attach the identity context to the request, the other
  middleware pass the request on as it is. A model function returns a value or
  throws, and may change the state.
\<close>

record env =
  authenticate :: "state \<Rightarrow> request \<Rightarrow> reject + request"
  check :: "mw \<Rightarrow> state \<Rightarrow> request \<Rightarrow> reject option"
  model :: "model_call \<Rightarrow> state \<Rightarrow> (error + jsval) \<times> state"
  static :: "state \<Rightarrow> string list \<Rightarrow> string option"

datatype outcome =
    Sent nat jsval
  | Halted mw reject
  | Failed error
  | File string
  | Unhandled

datatype event = Passed mw | Stopped mw | Called model_call | Served "string list"

section \<open>The router\<close>

definition lower_char :: "char \<Rightarrow> char" where
  "lower_char c =
     (let n = (of_char c :: nat) in if 65 \<le> n \<and> n \<le> 90 then char_of (n + 32) else c)"

definition lower :: "string \<Rightarrow> string" where
  "lower s = map lower_char s"

datatype seg = Lit string | Param string

text \<open>
  Route paths match the whole request path, segment by segment; literals are compared
  without regard to case (the router is created with \<^verbatim>\<open>Router()\<close>, whose default is
  case-insensitive, non-strict matching) and a parameter takes one non-empty segment.
\<close>

fun match_segs :: "seg list \<Rightarrow> string list \<Rightarrow> (string \<times> string) list option" where
  "match_segs [] [] = Some []"
| "match_segs (Lit l # ps) (s # ss) =
     (if lower l = lower s then match_segs ps ss else None)"
| "match_segs (Param n # ps) (s # ss) =
     (if s = [] then None else map_option (\<lambda>r. (n, s) # r) (match_segs ps ss))"
| "match_segs ps ss = None"

text \<open>A \<^verbatim>\<open>router.get\<close> route also answers \<^verbatim>\<open>HEAD\<close> requests.\<close>

definition handles_method :: "http_method \<Rightarrow> http_method \<Rightarrow> bool" where
  "handles_method rm m = (m = rm \<or> (rm = GET \<and> m = HEAD))"

text \<open>The route handlers of \<^verbatim>\<open>courses.js\<close>, named by method and path.\<close>

datatype handler =
    GetCourses
  | PostCourses
  | GetCourse
  | PatchCourse
  | DeleteCourseRoute
  | GetStudents
  | PostStudents
  | GetRoster
  | GetAssignments

datatype layer =
    Route http_method "seg list" "mw list" handler
  | Static string

text \<open>The layers of the router, in the order in which \<^verbatim>\<open>courses.js\<close> registers them.\<close>

definition router :: "layer list" where
  "router =
    [ Route GET [] [] GetCourses,
      Route POST []
        [RequireAuthentication, AuthorizeAdminAccess, ValidateCourseBody, ValidateInstructorId]
        PostCourses,
      Route GET [Param ''courseId''] [ValidateCourseId] GetCourse,
      Route PATCH [Param ''courseId'']
        [RequireAuthentication, ValidateCourseId, AuthorizeCourseRelatedAccess, ValidateCourseBody]
        PatchCourse,
      Route DELETE [Param ''courseId'']
        [RequireAuthentication, ValidateCourseId, AuthorizeAdminAccess]
        DeleteCourseRoute,
      Route GET [Param ''courseId'', Lit ''students'']
        [RequireAuthentication, ValidateCourseId, AuthorizeCourseRelatedAccess]
        GetStudents,
      Route POST [Param ''courseId'', Lit ''students'']
        [RequireAuthentication, ValidateCourseId, AuthorizeCourseRelatedAccess,
         ValidateEnrollmentBody]
        PostStudents,
      Static ''roster'',
      Route GET [Param ''courseId'', Lit ''roster'']
        [RequireAuthentication, ValidateCourseId, AuthorizeCourseRelatedAccess]
        GetRoster,
      Route GET [Param ''courseId'', Lit ''assignments''] [ValidateCourseId] GetAssignments ]"

definition run_mw :: "env \<Rightarrow> mw \<Rightarrow> state \<Rightarrow> request \<Rightarrow> reject + request" where
  "run_mw e m st req =
     (if m = RequireAuthentication then authenticate e st req
      else case check e m st req of Some r \<Rightarrow> Inl r | None \<Rightarrow> Inr req)"

text \<open>A chain of middleware runs in order and stops at the first one that does not call \<^verbatim>\<open>next()\<close>.\<close>

fun run_chain :: "env \<Rightarrow> state \<Rightarrow> mw list \<Rightarrow> request \<Rightarrow> event list \<times> ((mw \<times> reject) + request)" where
  "run_chain e st [] req = ([], Inr req)"
| "run_chain e st (m # ms) req =
     (case run_mw e m st req of
        Inl r \<Rightarrow> ([Stopped m], Inl (m, r))
      | Inr req' \<Rightarrow> (case run_chain e st ms req' of (tr, res) \<Rightarrow> (Passed m # tr, res)))"

text \<open>
  Every handler has the shape \<^verbatim>\<open>try { v = await f(args); res.status(n).send(...) }
  catch (error) { next(error) }\<close>.
\<close>

definition call :: "env \<Rightarrow> model_call \<Rightarrow> state \<Rightarrow> (jsval \<Rightarrow> outcome) \<Rightarrow> outcome \<times> event list \<times> state" where
  "call e c st k =
     (case model e c st of
        (Inl err, st') \<Rightarrow> (Failed err, [Called c], st')
      | (Inr v, st') \<Rightarrow> (k v, [Called c], st'))"

definition invalid_message :: jsval where
  "invalid_message =
     JObj [(''error'', JStr ''Please make sure all the students to add/remove are valid.'')]"

fun handle :: "env \<Rightarrow> handler \<Rightarrow> request \<Rightarrow> state \<Rightarrow> outcome \<times> event list \<times> state" where
  "handle e GetCourses req st =
     call e (GetCoursePage (or_one (parseInt (map_of (query req) ''page'')))
               (map_of (query req) ''subject'')
               (map_of (query req) ''number'')
               (map_of (query req) ''term'')) st
       (\<lambda>coursePage. Sent 200 coursePage)"
| "handle e PostCourses req st =
     call e (InsertNewCourse (body req)) st (\<lambda>id. Sent 201 (JObj [(''_id'', id)]))"
| "handle e GetCourse req st =
     call e (GetCourseById (courseId req)) st (\<lambda>course. Sent 200 course)"
| "handle e PatchCourse req st =
     call e (UpdateCourseById (courseId req) req) st (\<lambda>_. Sent 200 JUndefined)"
| "handle e DeleteCourseRoute req st =
     call e (DeleteCourseById (courseId req)) st (\<lambda>_. Sent 204 JUndefined)"
| "handle e GetStudents req st =
     call e (FetchStudents (courseId req)) st (\<lambda>students. Sent 200 students)"
| "handle e PostStudents req st =
     (if body req = JUndefined \<or> body req = JNull then (Failed TypeError, [], st)
      else
        call e (UpdateEnrollment (getprop (body req) ''add'') (getprop (body req) ''remove'')
                  (courseId req)) st
          (\<lambda>result. if truthy result then Sent 201 JUndefined else Sent 400 invalid_message))"
| "handle e GetRoster req st =
     call e (CreateCsv (courseId req)) st (\<lambda>downloadUrl. Sent 200 (JObj [(''url'', downloadUrl)]))"
| "handle e GetAssignments req st =
     call e (FetchAssignments (courseId req)) st (\<lambda>assignments. Sent 200 assignments)"

text \<open>
  The layers are tried in order. A route whose method and path match runs its chain
  and its handler, and the request ends there: the handlers always send a response or
  pass an error on. \<^verbatim>\<open>express.static\<close> answers \<^verbatim>\<open>GET\<close> and \<^verbatim>\<open>HEAD\<close> requests below its
  mount path when the file exists, and calls \<^verbatim>\<open>next()\<close> otherwise.
\<close>

fun dispatch_from :: "env \<Rightarrow> layer list \<Rightarrow> request \<Rightarrow> state \<Rightarrow> outcome \<times> event list \<times> state" where
  "dispatch_from e [] req st = (Unhandled, [], st)"
| "dispatch_from e (Route m pat mws h # ls) req st =
     (if handles_method m (req_method req) then
        (case match_segs pat (req_path req) of
           None \<Rightarrow> dispatch_from e ls req st
         | Some ps \<Rightarrow>
             (case run_chain e st mws (req\<lparr>params := ps\<rparr>) of
                (tr, Inl (m', r)) \<Rightarrow> (Halted m' r, tr, st)
              | (tr, Inr req') \<Rightarrow>
                  (case handle e h req' st of (out, tr', st') \<Rightarrow> (out, tr @ tr', st'))))
      else dispatch_from e ls req st)"
| "dispatch_from e (Static mount # ls) req st =
     (case req_path req of
        [] \<Rightarrow> dispatch_from e ls req st
      | s # rest \<Rightarrow>
          if lower s = lower mount \<and> (req_method req = GET \<or> req_method req = HEAD) then
            (case static e st rest of
               Some bytes \<Rightarrow> (File bytes, [Served rest], st)
             | None \<Rightarrow> dispatch_from e ls req st)
          else dispatch_from e ls req st)"

definition dispatch :: "env \<Rightarrow> request \<Rightarrow> state \<Rightarrow> outcome \<times> event list \<times> state" where
  "dispatch e req st = dispatch_from e router req st"

definition trace_of :: "outcome \<times> event list \<times> state \<Rightarrow> event list" where
  "trace_of r = fst (snd r)"

definition outcome_of :: "outcome \<times> event list \<times> state \<Rightarrow> outcome" where
  "outcome_of r = fst r"

definition state_of :: "outcome \<times> event list \<times> state \<Rightarrow> state" where
  "state_of r = snd (snd r)"

text \<open>The middleware that a request went through, in order, whether they passed it on or not.\<close>

fun middleware_run :: "event list \<Rightarrow> mw list" where
  "middleware_run [] = []"
| "middleware_run (Passed m # evs) = m # middleware_run evs"
| "middleware_run (Stopped m # evs) = m # middleware_run evs"
| "middleware_run (ev # evs) = middleware_run evs"

text \<open>The events that precede the first call of \<^verbatim>\<open>updateEnrollment\<close> in a trace.\<close>

fun before_enrollment :: "event list \<Rightarrow> event list option" where
  "before_enrollment [] = None"
| "before_enrollment (Called (UpdateEnrollment a r c) # evs) = Some []"
| "before_enrollment (ev # evs) = map_option (\<lambda>pre. ev # pre) (before_enrollment evs)"

section \<open>The authorization engine\<close>

datatype operation =
    ReadCourse
  | CreateCourse
  | UpdateCourse
  | DeleteCourse
  | ReadRoster
  | MutateRoster
  | ReadRosterExport

datatype decision = Allow | Deny deny_reason

text \<open>
  Modelled from the spec: \<^verbatim>\<open>authorize\<close>, the decision matrix of the authorization
  engine, which lives in \<^verbatim>\<open>lib/auth\<close> (not part of the source at hand). An admin is allowed
  everything; an instructor is allowed the course-scoped operations on a course they
  own; a student may read the roster of a course they are enrolled in; reading plain
  course metadata is open to every principal.
\<close>

fun authorize :: "ident \<times> role \<Rightarrow> operation \<Rightarrow> course \<Rightarrow> decision" where
  "authorize (uid, Admin) op c = Allow"
| "authorize (uid, r) ReadCourse c = Allow"
| "authorize (uid, Instructor) CreateCourse c = Deny InsufficientRole"
| "authorize (uid, Instructor) DeleteCourse c = Deny InsufficientRole"
| "authorize (uid, Instructor) op c = (if uid = instructorId c then Allow else Deny NotOwner)"
| "authorize (uid, Student) ReadRoster c =
     (if uid |\<in>| students c then Allow else Deny NotEnrolled)"
| "authorize (uid, Student) op c = Deny InsufficientRole"

text \<open>
  Modelled from the spec: \<^verbatim>\<open>requireAuthentication\<close> of \<^verbatim>\<open>lib/auth\<close>. The identity
  collaborator \<open>resolveIdentity\<close> turns the credentials of a request into an identifier
  and a role; a request without resolvable credentials ends here.
\<close>

definition requireAuthentication ::
  "(string \<Rightarrow> (ident \<times> role) option) \<Rightarrow> state \<Rightarrow> request \<Rightarrow> reject + request" where
  "requireAuthentication resolveIdentity st req =
     (case credentials req of
        None \<Rightarrow> Inl Unauthenticated
      | Some cred \<Rightarrow>
          (case resolveIdentity cred of
             None \<Rightarrow> Inl Unauthenticated
           | Some p \<Rightarrow> Inr (req\<lparr>user := Some p\<rparr>)))"

text \<open>
  Modelled from the spec: \<^verbatim>\<open>authorizeAdminAccess\<close> of \<^verbatim>\<open>lib/auth\<close>, the gate of the
  admin-only operations.
\<close>

definition authorizeAdminAccess :: "state \<Rightarrow> request \<Rightarrow> reject option" where
  "authorizeAdminAccess st req =
     (case user req of
        None \<Rightarrow> Some Unauthenticated
      | Some (uid, r) \<Rightarrow> if r = Admin then None else Some (Denied InsufficientRole))"

text \<open>
  Modelled from the spec: the operation kind that \<^verbatim>\<open>authorizeCourseRelatedAccess\<close> (not
  part of the source at hand) decides on, taken from the method and the path of the
  request on the routes that use it.
\<close>

definition operation_of :: "request \<Rightarrow> operation" where
  "operation_of req =
     (if req_method req = PATCH then UpdateCourse
      else if req_method req = POST then MutateRoster
      else if req_path req \<noteq> [] \<and> lower (last (req_path req)) = ''roster'' then ReadRosterExport
      else ReadRoster)"

text \<open>
  Modelled from the spec: \<^verbatim>\<open>authorizeCourseRelatedAccess\<close> of \<^verbatim>\<open>lib/auth\<close>, which
  applies the decision matrix to the principal and the course of the request.
\<close>

definition authorizeCourseRelatedAccess :: "state \<Rightarrow> request \<Rightarrow> reject option" where
  "authorizeCourseRelatedAccess st req =
     (case user req of
        None \<Rightarrow> Some Unauthenticated
      | Some p \<Rightarrow>
          (case courses st (courseId req) of
             None \<Rightarrow> Some Invalid
           | Some c \<Rightarrow>
               (case authorize p (operation_of req) c of
                  Allow \<Rightarrow> None
                | Deny reason \<Rightarrow> Some (Denied reason))))"

section \<open>The enrollment mutator\<close>

datatype enrollment_result = Applied nat | Rejected "ident list"

text \<open>
  Modelled from the spec: an identifier refers to an existing identity with role
  \<^verbatim>\<open>student\<close>; part of the validation of \<^verbatim>\<open>updateEnrollment\<close>, which is not in the
  source at hand.
\<close>

definition is_student :: "state \<Rightarrow> ident \<Rightarrow> bool" where
  "is_student st i = (case users st i of None \<Rightarrow> False | Some a \<Rightarrow> user_role a = Student)"

text \<open>
  Modelled from the spec: the identifiers of a batch that fail the validation of
  \<^verbatim>\<open>updateEnrollment\<close> (not in the source at hand): an identifier to add that is not an
  existing student, an identifier to remove that is not on the roster, and an identifier
  that is listed both for addition and for removal (the specification treats the
  overlap as a validation error).
\<close>

definition failed_ids :: "state \<Rightarrow> course \<Rightarrow> ident list \<Rightarrow> ident list \<Rightarrow> ident list" where
  "failed_ids st c add remove =
     filter (\<lambda>i. \<not> is_student st i) add
     @ filter (\<lambda>i. i |\<notin>| students c) remove
     @ filter (\<lambda>i. i \<in> set remove) add"

text \<open>
  Modelled from the spec: \<^verbatim>\<open>applyEnrollment\<close>, the contract of \<^verbatim>\<open>updateEnrollment\<close> in
  \<^verbatim>\<open>models/course\<close> (not part of the source at hand). The batch is validated as a
  whole; a valid batch is applied, removals first and then additions, as one update of
  the course.
\<close>

definition applyEnrollment ::
  "string \<Rightarrow> ident list \<Rightarrow> ident list \<Rightarrow> state \<Rightarrow> (error + enrollment_result) \<times> state" where
  "applyEnrollment cid add remove st =
     (case courses st cid of
        None \<Rightarrow> (Inl NotFoundError, st)
      | Some c \<Rightarrow>
          (let bad = failed_ids st c add remove in
           if bad \<noteq> [] then (Inr (Rejected bad), st)
           else
             (let roster = (students c |-| fset_of_list remove) |\<union>| fset_of_list add
              in (Inr (Applied (fcard roster)),
                  st\<lparr>courses := (courses st)(cid \<mapsto> c\<lparr>students := roster\<rparr>)\<rparr>))))"

text \<open>
  Modelled from the spec: the identifiers that \<^verbatim>\<open>updateEnrollment\<close> (not in the source
  at hand) takes from a field of the request body: an array of strings, or nothing when
  the field is absent.
\<close>

fun id_strings :: "jsval list \<Rightarrow> ident list option" where
  "id_strings [] = Some []"
| "id_strings (JStr s # vs) = map_option (\<lambda>ss. s # ss) (id_strings vs)"
| "id_strings (v # vs) = None"

fun ids_of :: "jsval \<Rightarrow> ident list option" where
  "ids_of JUndefined = Some []"
| "ids_of (JArr vs) = id_strings vs"
| "ids_of v = None"

text \<open>
  Modelled from the spec: \<^verbatim>\<open>updateEnrollment(add, remove, courseId)\<close> as the handler
  calls it. The handler only tests the result for truthiness, so the result is the
  boolean "applied"; a body whose fields are not arrays of identifiers is rejected.
\<close>

definition updateEnrollment :: "jsval \<Rightarrow> jsval \<Rightarrow> string \<Rightarrow> state \<Rightarrow> (error + jsval) \<times> state" where
  "updateEnrollment add remove cid st =
     (case (ids_of add, ids_of remove) of
        (Some a, Some r) \<Rightarrow>
          (case applyEnrollment cid a r st of
             (Inl err, st') \<Rightarrow> (Inl err, st')
           | (Inr (Applied n), st') \<Rightarrow> (Inr (JBool True), st')
           | (Inr (Rejected bad), st') \<Rightarrow> (Inr (JBool False), st'))
      | _ \<Rightarrow> (Inr (JBool False), st))"

section \<open>The roster snapshot builder\<close>

type_synonym roster_row = "ident \<times> string \<times> string"

text \<open>
  Modelled from the spec: the display attributes of a student, resolved by the identity
  collaborator for \<^verbatim>\<open>buildRoster\<close>, which is not in the source at hand.
\<close>

definition display :: "state \<Rightarrow> ident \<Rightarrow> roster_row" where
  "display st i =
     (case users st i of
        None \<Rightarrow> (i, [], [])
      | Some a \<Rightarrow> (i, user_name a, user_email a))"

text \<open>
  Modelled from the spec: \<^verbatim>\<open>buildRoster\<close>, the rows of the roster of a course, one per
  enrolled student, in the order of the student identifiers.
\<close>

definition buildRoster :: "string \<Rightarrow> state \<Rightarrow> error + roster_row list" where
  "buildRoster cid st =
     (case courses st cid of
        None \<Rightarrow> Inl NotFoundError
      | Some c \<Rightarrow> Inr (map (display st) (sorted_list_of_fset (students c))))"

text \<open>
  Modelled from the spec: the tabular text that \<^verbatim>\<open>createCsv\<close> (not in the source at
  hand) writes, a header row and one comma-separated row per student without quoting,
  and the file of a course, keyed by the course identifier.
\<close>

definition csv_line :: "roster_row \<Rightarrow> string" where
  "csv_line row = (case row of (i, n, m) \<Rightarrow> i @ '','' @ n @ '','' @ m @ [CHR 0x0A])"

definition csv_text :: "roster_row list \<Rightarrow> string" where
  "csv_text rows = (''id,name,email'' @ [CHR 0x0A]) @ concat (map csv_line rows)"

definition roster_file :: "string \<Rightarrow> string list" where
  "roster_file cid = [cid @ ''.csv'']"

text \<open>
  Modelled from the spec: \<^verbatim>\<open>createCsv\<close> of \<^verbatim>\<open>models/course\<close> (\<^verbatim>\<open>exportRoster\<close> in the
  specification). The rows are written as comma-separated text under a header row to
  the file of the course in \<^verbatim>\<open>media/rosters\<close>, replacing an earlier export, and the
  address of the file is returned.
\<close>

definition createCsv :: "string \<Rightarrow> state \<Rightarrow> (error + jsval) \<times> state" where
  "createCsv cid st =
     (case buildRoster cid st of
        Inl err \<Rightarrow> (Inl err, st)
      | Inr rows \<Rightarrow>
          (Inr (JStr (''/courses/roster/'' @ cid @ ''.csv'')),
           st\<lparr>rosters := (rosters st)(roster_file cid \<mapsto> csv_text rows)\<rparr>))"

section \<open>The router over the modelled collaborators\<close>

text \<open>
  Modelled from the spec: the environment in which the functions modelled above take the
  places of the modules that are not in the source at hand; the
  validators and the remaining functions of \<^verbatim>\<open>models/course\<close> come from \<open>base\<close>.
\<close>

text \<open>
  \<^verbatim>\<open>express.static\<close> with its default options over \<^verbatim>\<open>media/rosters\<close>: a file whose
  name begins with a dot is not served.
\<close>

definition dotfile :: "string list \<Rightarrow> bool" where
  "dotfile file = (file \<noteq> [] \<and> last file \<noteq> [] \<and> hd (last file) = CHR ''.'')"

definition serve_static :: "state \<Rightarrow> string list \<Rightarrow> string option" where
  "serve_static st file = (if dotfile file then None else rosters st file)"

definition spec_model :: "env \<Rightarrow> model_call \<Rightarrow> state \<Rightarrow> (error + jsval) \<times> state" where
  "spec_model base c =
     (case c of
        UpdateEnrollment add remove cid \<Rightarrow> updateEnrollment add remove cid
      | CreateCsv cid \<Rightarrow> createCsv cid
      | _ \<Rightarrow> model base c)"

definition spec_check :: "env \<Rightarrow> mw \<Rightarrow> state \<Rightarrow> request \<Rightarrow> reject option" where
  "spec_check base m =
     (if m = AuthorizeAdminAccess then authorizeAdminAccess
      else if m = AuthorizeCourseRelatedAccess then authorizeCourseRelatedAccess
      else check base m)"

definition spec_env :: "(string \<Rightarrow> (ident \<times> role) option) \<Rightarrow> env \<Rightarrow> env" where
  "spec_env resolveIdentity base =
     \<lparr> authenticate = requireAuthentication resolveIdentity,
       check = spec_check base,
       model = spec_model base,
       static = serve_static \<rparr>"

text \<open>
  A base environment for running the router on concrete requests: the validators accept
  and the functions that are not modelled return \<^verbatim>\<open>null\<close>.
\<close>

definition plain_env :: env where
  "plain_env =
     \<lparr> authenticate = (\<lambda>st req. Inl Unauthenticated),
       check = (\<lambda>m st req. None),
       model = (\<lambda>c st. (Inr JNull, st)),
       static = (\<lambda>st file. None) \<rparr>"

subsection \<open>A concrete system\<close>

text \<open>
  The example of the specification: course \<open>C\<close>, taught by \<open>I\<close>, has the roster
  \<open>{A, B}\<close>; \<open>D\<close> is a student who is not enrolled, \<open>X\<close> is an admin, and no identity
  \<open>Z\<close> exists.
\<close>

definition demo_identity :: "string \<Rightarrow> (ident \<times> role) option" where
  "demo_identity cred =
     (if cred = ''token-X'' then Some (''X'', Admin)
      else if cred = ''token-I'' then Some (''I'', Instructor)
      else if cred = ''token-A'' then Some (''A'', Student)
      else None)"

definition demo_users :: "ident \<rightharpoonup> account" where
  "demo_users =
     [''A'' \<mapsto> \<lparr>user_name = ''Ada'', user_email = ''ada@example.org'', user_role = Student\<rparr>,
      ''B'' \<mapsto> \<lparr>user_name = ''Bo'', user_email = ''bo@example.org'', user_role = Student\<rparr>,
      ''D'' \<mapsto> \<lparr>user_name = ''Dee'', user_email = ''dee@example.org'', user_role = Student\<rparr>,
      ''I'' \<mapsto> \<lparr>user_name = ''Ida'', user_email = ''ida@example.org'', user_role = Instructor\<rparr>,
      ''X'' \<mapsto> \<lparr>user_name = ''Xi'', user_email = ''xi@example.org'', user_role = Admin\<rparr>]"

definition demo_course :: course where
  "demo_course =
     \<lparr>course_subject = ''CS'', course_number = ''493'', course_term = ''sp22'',
      instructorId = ''I'', students = {|''B'', ''A''|}\<rparr>"

definition demo_state :: state where
  "demo_state = \<lparr>users = demo_users, courses = [''C'' \<mapsto> demo_course], rosters = Map.empty\<rparr>"

definition demo_env :: env where
  "demo_env = spec_env demo_identity plain_env"

definition demo_request :: "http_method \<Rightarrow> string list \<Rightarrow> string option \<Rightarrow> request" where
  "demo_request m p cred =
     \<lparr>req_method = m, req_path = p, query = [], body = JUndefined, credentials = cred,
      params = [], user = None\<rparr>"

definition enrollment_body :: "ident list \<Rightarrow> ident list \<Rightarrow> jsval" where
  "enrollment_body add remove =
     JObj [(''add'', JArr (map JStr add)), (''remove'', JArr (map JStr remove))]"

definition demo_enroll :: "ident list \<Rightarrow> ident list \<Rightarrow> request" where
  "demo_enroll add remove =
     (demo_request POST [''C'', ''students''] (Some ''token-I''))
       \<lparr>body := enrollment_body add remove\<rparr>"

definition demo_exported :: state where
  "demo_exported = snd (createCsv ''C'' demo_state)"

section \<open>Properties of the middleware chains and handlers\<close>

lemma lower_students: "lower ''students'' = ''students''"
  by code_simp

lemma lower_roster: "lower ''roster'' = ''roster''"
  by code_simp

lemma handle_no_middleware: "middleware_run (trace_of (handle e h req st)) = []"
  by (cases h) (auto simp: trace_of_def call_def split: prod.splits sum.splits)

lemma handle_trace_shape:
  "trace_of (handle e h req st) = [] \<or> (\<exists>c. trace_of (handle e h req st) = [Called c])"
  by (cases h) (auto simp: trace_of_def call_def split: prod.splits sum.splits)

lemma run_chain_passed: "run_chain e st ms req = (tr, Inr req') \<Longrightarrow> tr = map Passed ms"
  by (induction ms arbitrary: req tr) (auto split: sum.splits prod.splits)

lemma run_chain_stopped:
  "run_chain e st ms req = (tr, Inl x) \<Longrightarrow> tr \<noteq> [] \<and> (\<exists>m. last tr = Stopped m)"
  by (induction ms arbitrary: req tr) (auto split: sum.splits prod.splits)

lemma run_chain_no_enrollment:
  "run_chain e st ms req = (tr, res) \<Longrightarrow> before_enrollment tr = None"
  by (induction ms arbitrary: req tr res) (auto split: sum.splits prod.splits)

lemma before_enrollment_passed:
  "before_enrollment (map Passed ms @ tr) =
     map_option (\<lambda>pre. map Passed ms @ pre) (before_enrollment tr)"
  by (induction ms) (auto simp: option.map_comp comp_def option.map_ident)

lemma handle_enrollment:
  "before_enrollment (trace_of (handle e h req st)) = Some pre \<Longrightarrow> h = PostStudents \<and> pre = []"
  by (cases h) (auto simp: trace_of_def call_def split: prod.splits sum.splits if_splits)

lemma handle_enrollment_outcome:
  assumes "trace_of (handle e h req st) = [Called (UpdateEnrollment a r c)]"
      and "model e (UpdateEnrollment a r c) st = (Inr v, st')"
  shows "outcome_of (handle e h req st) =
           (if truthy v then Sent 201 JUndefined else Sent 400 invalid_message)
         \<and> state_of (handle e h req st) = st'"
  using assms
  by (cases h)
     (auto simp: trace_of_def outcome_of_def state_of_def call_def
           split: prod.splits sum.splits if_splits)

text \<open>
  Whatever the collaborators do, \<^verbatim>\<open>updateEnrollment\<close> is reached through the route
  \<^verbatim>\<open>POST /:courseId/students\<close> only, after the whole chain of that route has passed.
\<close>

lemma dispatch_from_enrollment:
  "before_enrollment (trace_of (dispatch_from e ls req st)) = Some pre \<Longrightarrow>
     \<exists>m pat mws. Route m pat mws PostStudents \<in> set ls \<and> pre = map Passed mws"
proof (induction ls)
  case Nil
  then show ?case by (simp add: trace_of_def)
next
  case (Cons l ls)
  show ?case
  proof (cases l)
    case (Route m pat mws h)
    show ?thesis
    proof (cases "handles_method m (req_method req)")
      case False
      with Cons Route show ?thesis by auto
    next
      case True
      show ?thesis
      proof (cases "match_segs pat (req_path req)")
        case None
        with Cons Route True show ?thesis by auto
      next
        case (Some ps)
        obtain tr res where rc: "run_chain e st mws (req\<lparr>params := ps\<rparr>) = (tr, res)"
          by (cases "run_chain e st mws (req\<lparr>params := ps\<rparr>)")
        show ?thesis
        proof (cases res)
          case (Inl a)
          obtain m' r where a: "a = (m', r)" by (cases a)
          have "trace_of (dispatch_from e (l # ls) req st) = tr"
            using Route True Some rc Inl a by (simp add: trace_of_def)
          moreover have "before_enrollment tr = None"
            using run_chain_no_enrollment[OF rc] .
          ultimately show ?thesis using Cons.prems by simp
        next
          case (Inr req')
          have tr: "tr = map Passed mws" using rc Inr run_chain_passed by blast
          have "trace_of (dispatch_from e (l # ls) req st) = tr @ trace_of (handle e h req' st)"
            using Route True Some rc Inr by (simp add: trace_of_def split: prod.splits)
          with Cons.prems tr obtain p where
            "before_enrollment (trace_of (handle e h req' st)) = Some p" "pre = map Passed mws @ p"
            by (auto simp: before_enrollment_passed)
          with handle_enrollment[of e h req' st p] have "h = PostStudents" "pre = map Passed mws"
            by auto
          with Route show ?thesis by auto
        qed
      qed
    qed
  next
    case (Static mount)
    with Cons show ?thesis
      by (auto simp: trace_of_def split: list.splits if_splits option.splits)
  qed
qed

text \<open>
  When the last event of a request is a call of \<^verbatim>\<open>updateEnrollment\<close> that returned,
  the response is decided by the truthiness of the result alone.
\<close>

lemma dispatch_from_enrollment_outcome:
  assumes "trace_of (dispatch_from e ls req st) = pre @ [Called (UpdateEnrollment a r c)]"
      and "model e (UpdateEnrollment a r c) st = (Inr v, st')"
  shows "outcome_of (dispatch_from e ls req st) =
           (if truthy v then Sent 201 JUndefined else Sent 400 invalid_message)
         \<and> state_of (dispatch_from e ls req st) = st'"
  using assms(1)
proof (induction ls)
  case Nil
  then show ?case by (simp add: trace_of_def)
next
  case (Cons l ls)
  show ?case
  proof (cases l)
    case (Route m pat mws h)
    show ?thesis
    proof (cases "handles_method m (req_method req)")
      case False
      with Cons Route show ?thesis by (simp add: trace_of_def outcome_of_def state_of_def)
    next
      case True
      show ?thesis
      proof (cases "match_segs pat (req_path req)")
        case None
        with Cons Route True show ?thesis by (simp add: trace_of_def outcome_of_def state_of_def)
      next
        case (Some ps)
        obtain tr res where rc: "run_chain e st mws (req\<lparr>params := ps\<rparr>) = (tr, res)"
          by (cases "run_chain e st mws (req\<lparr>params := ps\<rparr>)")
        show ?thesis
        proof (cases res)
          case (Inl x)
          obtain m' rj where x: "x = (m', rj)" by (cases x)
          have "trace_of (dispatch_from e (l # ls) req st) = tr"
            using Route True Some rc Inl x by (simp add: trace_of_def)
          moreover have "tr \<noteq> [] \<and> (\<exists>m. last tr = Stopped m)"
            using run_chain_stopped rc Inl by blast
          ultimately show ?thesis using Cons.prems by auto
        next
          case (Inr req')
          have tr: "tr = map Passed mws" using rc Inr run_chain_passed by blast
          have d: "dispatch_from e (l # ls) req st =
                     (outcome_of (handle e h req' st), tr @ trace_of (handle e h req' st),
                      state_of (handle e h req' st))"
            using Route True Some rc Inr
            by (simp add: trace_of_def outcome_of_def state_of_def del: handle.simps
                     split: prod.splits)
          then have t: "map Passed mws @ trace_of (handle e h req' st) =
                          pre @ [Called (UpdateEnrollment a r c)]"
            using Cons.prems tr by (simp add: trace_of_def)
          have "trace_of (handle e h req' st) = [Called (UpdateEnrollment a r c)]"
          proof (rule disjE[OF handle_trace_shape[of e h req' st]])
            assume "trace_of (handle e h req' st) = []"
            with t have "map Passed mws = pre @ [Called (UpdateEnrollment a r c)]" by simp
            then have "Called (UpdateEnrollment a r c) \<in> set (map Passed mws)" by simp
            then show ?thesis by auto
          next
            assume "\<exists>c'. trace_of (handle e h req' st) = [Called c']"
            then obtain c' where c': "trace_of (handle e h req' st) = [Called c']" by blast
            with t have "map Passed mws @ [Called c'] = pre @ [Called (UpdateEnrollment a r c)]"
              by simp
            then have "c' = UpdateEnrollment a r c" by simp
            with c' show ?thesis by simp
          qed
          from handle_enrollment_outcome[OF this assms(2)] d show ?thesis
            by (simp add: outcome_of_def state_of_def)
        qed
      qed
    qed
  next
    case (Static mount)
    with Cons show ?thesis
      by (auto simp: trace_of_def outcome_of_def state_of_def
               split: list.splits if_splits option.splits)
  qed
qed

text \<open>
  A \<^verbatim>\<open>GET\<close> request below \<^verbatim>\<open>/roster\<close> that no earlier route takes reaches
  \<^verbatim>\<open>express.static\<close> without having gone through any middleware.
\<close>

lemma static_layer_reached:
  assumes "req_method req = GET"
      and "req_path req = m # rest"
      and "lower m = ''roster''"
      and "rest \<noteq> []"
      and "\<forall>s. rest = [s] \<longrightarrow> lower s \<noteq> ''students''"
      and "static e st rest = Some bytes"
  shows "dispatch e req st = (File bytes, [Served rest], st)"
proof -
  obtain s ss where f: "rest = s # ss" using assms(4) by (cases rest) auto
  have m: "m \<noteq> []" using assms(3) by (auto simp: lower_def)
  have ns: "match_segs [Lit ''students''] rest = None"
    using assms(5) f by (cases ss) (auto simp: lower_students)
  show ?thesis using assms(1,2,3,6) f m ns
    by (simp add: dispatch_def router_def handles_method_def lower_roster)
qed

lemma lower_append: "lower (a @ b) = lower a @ lower b"
  by (simp add: lower_def)

lemma lower_csv: "lower ''.csv'' = ''.csv''"
  by code_simp

lemma csv_name_not_students: "lower (cid @ ''.csv'') \<noteq> ''students''"
proof
  assume "lower (cid @ ''.csv'') = ''students''"
  then have "last (lower cid @ ''.csv'') = last ''students''"
    by (simp add: lower_append lower_csv)
  then show False by simp
qed

section \<open>Properties of the modelled collaborators\<close>

lemma id_strings_map: "id_strings (map JStr xs) = Some xs"
  by (induction xs) auto

lemma failed_ids_nonempty:
  "failed_ids st c add remove \<noteq> [] \<longleftrightarrow>
     (\<exists>i\<in>set add. \<not> is_student st i) \<or> (\<exists>i\<in>set remove. i |\<notin>| students c)
       \<or> set add \<inter> set remove \<noteq> {}"
  by (auto simp: failed_ids_def filter_empty_conv)


lemma display_rosters: "display (st\<lparr>rosters := r\<rparr>) = display st"
  by (rule ext) (simp add: display_def)

lemma buildRoster_rosters:
  "buildRoster cid (st\<lparr>rosters := r\<rparr>) = buildRoster cid st"
  by (simp add: buildRoster_def display_rosters split: option.splits)

lemma fst_display: "fst (display st i) = i"
  by (simp add: display_def split: option.splits)

section \<open>The enrollment mutator: all-or-nothing batches\<close>

text \<open>
  C1. A batch that contains an identifier to add that is not an existing student, or an
  identifier to remove that is not on the roster of the course, is rejected as a whole:
  the result names the failing identifiers, \<^verbatim>\<open>updateEnrollment\<close> returns a falsy value,
  and the state (hence the roster read afterwards) is the one before the call.
\<close>

theorem invalid_batch_rejected:
  assumes "courses st cid = Some c"
      and "(\<exists>i\<in>set add. \<not> is_student st i) \<or> (\<exists>i\<in>set remove. i |\<notin>| students c)"
  shows "applyEnrollment cid add remove st = (Inr (Rejected (failed_ids st c add remove)), st)
         \<and> failed_ids st c add remove \<noteq> []
         \<and> updateEnrollment (JArr (map JStr add)) (JArr (map JStr remove)) cid st
             = (Inr (JBool False), st)"
proof -
  have bad: "failed_ids st c add remove \<noteq> []"
    using assms(2) failed_ids_nonempty[of st c add remove] by blast
  have ap: "applyEnrollment cid add remove st = (Inr (Rejected (failed_ids st c add remove)), st)"
    using assms(1) bad by (simp add: applyEnrollment_def)
  then have "updateEnrollment (JArr (map JStr add)) (JArr (map JStr remove)) cid st
             = (Inr (JBool False), st)"
    by (simp add: updateEnrollment_def id_strings_map)
  with ap bad show ?thesis by simp
qed

text \<open>
  The example of the specification: adding \<open>D\<close> and removing \<open>A\<close> and the unknown \<open>Z\<close>
  is rejected because of \<open>Z\<close>, and the roster stays \<open>{A, B}\<close>.
\<close>

theorem invalid_batch_rejected_witness:
  "courses demo_state ''C'' = Some demo_course
   \<and> ''Z'' \<in> set [''A'', ''Z''] \<and> ''Z'' |\<notin>| students demo_course
   \<and> applyEnrollment ''C'' [''D''] [''A'', ''Z''] demo_state = (Inr (Rejected [''Z'']), demo_state)
   \<and> updateEnrollment (JArr (map JStr [''D''])) (JArr (map JStr [''A'', ''Z''])) ''C'' demo_state
        = (Inr (JBool False), demo_state)"
proof -
  have h1: "courses demo_state ''C'' = Some demo_course"
    by (simp add: demo_state_def)
  have z: "''Z'' \<in> set [''A'', ''Z'']" "''Z'' |\<notin>| students demo_course"
    by code_simp+
  then have h2: "(\<exists>i\<in>set [''D'']. \<not> is_student demo_state i)
        \<or> (\<exists>i\<in>set [''A'', ''Z'']. i |\<notin>| students demo_course)"
    by blast
  have bad: "failed_ids demo_state demo_course [''D''] [''A'', ''Z''] = [''Z'']"
    by code_simp
  from invalid_batch_rejected[OF h1 h2] show ?thesis
    using h1 z bad by simp
qed



section \<open>What the enrollment handler reports\<close>

text \<open>
  C3 (as amended). Whenever \<^verbatim>\<open>updateEnrollment\<close> was called for a request and returned a
  falsy result (the batch was rejected), the response is status 400 with the fixed body
  \<^verbatim>\<open>{error: "Please make sure all the students to add/remove are valid."}\<close>, whatever
  the identifiers of the batch were.
\<close>

theorem rejected_batch_response:
  assumes "trace_of (dispatch e req st) = pre @ [Called (UpdateEnrollment a r c)]"
      and "model e (UpdateEnrollment a r c) st = (Inr result, st')"
      and "\<not> truthy result"
  shows "outcome_of (dispatch e req st) = Sent 400 invalid_message"
  using dispatch_from_enrollment_outcome[of e router req st pre a r c result st'] assms
  by (simp add: dispatch_def)

theorem rejected_batch_response_witness:
  "trace_of (dispatch demo_env (demo_enroll [''D''] [''A'', ''Z'']) demo_state) =
     [Passed RequireAuthentication, Passed ValidateCourseId,
      Passed AuthorizeCourseRelatedAccess, Passed ValidateEnrollmentBody]
     @ [Called (UpdateEnrollment (JArr [JStr ''D'']) (JArr [JStr ''A'', JStr ''Z'']) ''C'')]
   \<and> fst (model demo_env
            (UpdateEnrollment (JArr [JStr ''D'']) (JArr [JStr ''A'', JStr ''Z'']) ''C'')
            demo_state) = Inr (JBool False)
   \<and> \<not> truthy (JBool False)
   \<and> outcome_of (dispatch demo_env (demo_enroll [''D''] [''A'', ''Z'']) demo_state)
        = Sent 400 invalid_message"
proof -
  let ?call = "UpdateEnrollment (JArr [JStr ''D'']) (JArr [JStr ''A'', JStr ''Z'']) ''C''"
  have h1: "trace_of (dispatch demo_env (demo_enroll [''D''] [''A'', ''Z'']) demo_state) =
     [Passed RequireAuthentication, Passed ValidateCourseId,
      Passed AuthorizeCourseRelatedAccess, Passed ValidateEnrollmentBody] @ [Called ?call]"
    by code_simp
  have f: "fst (model demo_env ?call demo_state) = Inr (JBool False)"
    by code_simp
  then have h2: "model demo_env ?call demo_state =
                   (Inr (JBool False), snd (model demo_env ?call demo_state))"
    by (cases "model demo_env ?call demo_state") simp
  have h3: "\<not> truthy (JBool False)"
    by simp
  from rejected_batch_response[OF h1 h2 h3] show ?thesis
    using h1 f by simp
qed

text \<open>
  C3 as stated fails: two batches that are rejected for different identifiers (\<open>Z\<close> in
  one, \<open>Q\<close> in the other) get the same response, so the response does not say which
  identifiers failed.
\<close>

theorem rejection_names_no_identifier_counterexample:
  "fst (applyEnrollment ''C'' [''D''] [''A'', ''Z''] demo_state) = Inr (Rejected [''Z''])
   \<and> fst (applyEnrollment ''C'' [''Q''] [] demo_state) = Inr (Rejected [''Q''])
   \<and> outcome_of (dispatch demo_env (demo_enroll [''D''] [''A'', ''Z'']) demo_state)
        = Sent 400 (JObj [(''error'',
            JStr ''Please make sure all the students to add/remove are valid.'')])
   \<and> outcome_of (dispatch demo_env (demo_enroll [''Q''] []) demo_state)
        = Sent 400 (JObj [(''error'',
            JStr ''Please make sure all the students to add/remove are valid.'')])"
proof -
  have "fst (applyEnrollment ''C'' [''D''] [''A'', ''Z''] demo_state) = Inr (Rejected [''Z''])"
    by code_simp
  moreover have "fst (applyEnrollment ''C'' [''Q''] [] demo_state) = Inr (Rejected [''Q''])"
    by code_simp
  moreover have "outcome_of (dispatch demo_env (demo_enroll [''D''] [''A'', ''Z'']) demo_state)
        = Sent 400 (JObj [(''error'',
            JStr ''Please make sure all the students to add/remove are valid.'')])"
    by code_simp
  moreover have "outcome_of (dispatch demo_env (demo_enroll [''Q''] []) demo_state)
        = Sent 400 (JObj [(''error'',
            JStr ''Please make sure all the students to add/remove are valid.'')])"
    by code_simp
  ultimately show ?thesis by blast
qed

text \<open>
  C4 (as amended). Whenever \<^verbatim>\<open>updateEnrollment\<close> was called for a request and returned a
  truthy result (the batch was applied), the response is status 201 with an empty body.
\<close>

theorem applied_batch_response:
  assumes "trace_of (dispatch e req st) = pre @ [Called (UpdateEnrollment a r c)]"
      and "model e (UpdateEnrollment a r c) st = (Inr result, st')"
      and "truthy result"
  shows "outcome_of (dispatch e req st) = Sent 201 JUndefined"
  using dispatch_from_enrollment_outcome[of e router req st pre a r c result st'] assms
  by (simp add: dispatch_def)

theorem applied_batch_response_witness:
  "trace_of (dispatch demo_env (demo_enroll [''D''] [''A'']) demo_state) =
     [Passed RequireAuthentication, Passed ValidateCourseId,
      Passed AuthorizeCourseRelatedAccess, Passed ValidateEnrollmentBody]
     @ [Called (UpdateEnrollment (JArr [JStr ''D'']) (JArr [JStr ''A'']) ''C'')]
   \<and> fst (model demo_env
            (UpdateEnrollment (JArr [JStr ''D'']) (JArr [JStr ''A'']) ''C'')
            demo_state) = Inr (JBool True)
   \<and> truthy (JBool True)
   \<and> outcome_of (dispatch demo_env (demo_enroll [''D''] [''A'']) demo_state)
        = Sent 201 JUndefined"
proof -
  let ?call = "UpdateEnrollment (JArr [JStr ''D'']) (JArr [JStr ''A'']) ''C''"
  have h1: "trace_of (dispatch demo_env (demo_enroll [''D''] [''A'']) demo_state) =
     [Passed RequireAuthentication, Passed ValidateCourseId,
      Passed AuthorizeCourseRelatedAccess, Passed ValidateEnrollmentBody] @ [Called ?call]"
    by code_simp
  have f: "fst (model demo_env ?call demo_state) = Inr (JBool True)"
    by code_simp
  then have h2: "model demo_env ?call demo_state =
                   (Inr (JBool True), snd (model demo_env ?call demo_state))"
    by (cases "model demo_env ?call demo_state") simp
  have h3: "truthy (JBool True)"
    by simp
  from applied_batch_response[OF h1 h2 h3] show ?thesis
    using h1 f by simp
qed

text \<open>
  C4 as stated fails: a batch that leaves a roster of two students and a batch that
  leaves a roster of three get the same response, status 201 without a body, so the
  response does not carry the size of the roster.
\<close>

theorem success_carries_no_size_counterexample:
  "fst (applyEnrollment ''C'' [''D''] [''A''] demo_state) = Inr (Applied 2)
   \<and> fst (applyEnrollment ''C'' [''D''] [] demo_state) = Inr (Applied 3)
   \<and> outcome_of (dispatch demo_env (demo_enroll [''D''] [''A'']) demo_state)
        = Sent 201 JUndefined
   \<and> outcome_of (dispatch demo_env (demo_enroll [''D''] []) demo_state)
        = Sent 201 JUndefined"
proof -
  have "fst (applyEnrollment ''C'' [''D''] [''A''] demo_state) = Inr (Applied 2)"
    by code_simp
  moreover have "fst (applyEnrollment ''C'' [''D''] [] demo_state) = Inr (Applied 3)"
    by code_simp
  moreover have "outcome_of (dispatch demo_env (demo_enroll [''D''] [''A'']) demo_state)
        = Sent 201 JUndefined"
    by code_simp
  moreover have "outcome_of (dispatch demo_env (demo_enroll [''D''] []) demo_state)
        = Sent 201 JUndefined"
    by code_simp
  ultimately show ?thesis by blast
qed

section \<open>Which routes are gated\<close>

text \<open>
  C5. Listing courses and reading one course are not gated: a \<^verbatim>\<open>GET /courses\<close> request
  goes through no middleware at all, and its result does not depend on the credentials
  or the identity context of the request; a \<^verbatim>\<open>GET /courses/{id}\<close> request goes through
  \<^verbatim>\<open>validateCourseId\<close> only, so neither \<^verbatim>\<open>requireAuthentication\<close> nor an authorization
  middleware runs for it.
\<close>

theorem public_course_reads:
  assumes "req_method req = GET"
  shows "(req_path req = [] \<longrightarrow>
            middleware_run (trace_of (dispatch e req st)) = [] \<and>
            dispatch e (req\<lparr>credentials := cr, user := u\<rparr>) st = dispatch e req st) \<and>
         (\<forall>cid. req_path req = [cid] \<and> cid \<noteq> [] \<longrightarrow>
            middleware_run (trace_of (dispatch e req st)) = [ValidateCourseId])"
proof (intro conjI impI allI)
  assume p: "req_path req = []"
  have d: "\<And>r. req_method r = GET \<Longrightarrow> req_path r = [] \<Longrightarrow>
      dispatch e r st = handle e GetCourses (r\<lparr>params := []\<rparr>) st"
    by (simp add: dispatch_def router_def handles_method_def del: handle.simps split: prod.splits)
  show "middleware_run (trace_of (dispatch e req st)) = []"
    unfolding d[OF assms p] by (rule handle_no_middleware)
  show "dispatch e (req\<lparr>credentials := cr, user := u\<rparr>) st = dispatch e req st"
    using d[OF assms p] d[of "req\<lparr>credentials := cr, user := u\<rparr>"] assms p by simp
next
  fix cid assume "req_path req = [cid] \<and> cid \<noteq> []"
  then have p: "req_path req = [cid]" and c: "cid \<noteq> []" by auto
  show "middleware_run (trace_of (dispatch e req st)) = [ValidateCourseId]"
  proof (cases "run_mw e ValidateCourseId st (req\<lparr>params := [(''courseId'', cid)]\<rparr>)")
    case (Inl r)
    then show ?thesis using assms p c
      by (simp add: dispatch_def router_def handles_method_def trace_of_def)
  next
    case (Inr req')
    have "trace_of (dispatch e req st) = Passed ValidateCourseId # trace_of (handle e GetCourse req' st)"
      using assms p c Inr
      by (simp add: dispatch_def router_def handles_method_def trace_of_def del: handle.simps
               split: prod.splits)
    then show ?thesis by (simp add: handle_no_middleware del: handle.simps)
  qed
qed

theorem public_course_reads_witness:
  "req_method (demo_request GET [] None) = GET
   \<and> req_path (demo_request GET [] None) = []
   \<and> middleware_run (trace_of (dispatch demo_env (demo_request GET [] None) demo_state)) = []
   \<and> outcome_of (dispatch demo_env (demo_request GET [] None) demo_state) = Sent 200 JNull
   \<and> req_method (demo_request GET [''C''] None) = GET
   \<and> req_path (demo_request GET [''C''] None) = [''C''] \<and> ''C'' \<noteq> []
   \<and> middleware_run (trace_of (dispatch demo_env (demo_request GET [''C''] None) demo_state))
        = [ValidateCourseId]
   \<and> outcome_of (dispatch demo_env (demo_request GET [''C''] None) demo_state) = Sent 200 JNull"
proof -
  have m1: "req_method (demo_request GET [] None) = GET"
    and p1: "req_path (demo_request GET [] None) = []"
    and m2: "req_method (demo_request GET [''C''] None) = GET"
    and p2: "req_path (demo_request GET [''C''] None) = [''C''] \<and> ''C'' \<noteq> []"
    by (simp_all add: demo_request_def)
  have o1: "outcome_of (dispatch demo_env (demo_request GET [] None) demo_state) = Sent 200 JNull"
    by code_simp
  have o2: "outcome_of (dispatch demo_env (demo_request GET [''C''] None) demo_state) = Sent 200 JNull"
    by code_simp
  from public_course_reads[OF m1, of demo_env demo_state] p1
  have t1: "middleware_run (trace_of (dispatch demo_env (demo_request GET [] None) demo_state)) = []"
    by blast
  from public_course_reads[OF m2, of demo_env demo_state] p2
  have t2: "middleware_run (trace_of (dispatch demo_env (demo_request GET [''C''] None) demo_state))
        = [ValidateCourseId]"
    by blast
  from m1 p1 t1 o1 m2 p2 t2 o2 show ?thesis by blast
qed

text \<open>
  C6. Creating and deleting a course are admin-only. For a request whose credentials
  resolve to a principal that is not an admin, \<^verbatim>\<open>POST /courses\<close> ends at
  \<^verbatim>\<open>authorizeAdminAccess\<close> with a denial, and \<^verbatim>\<open>DELETE /courses/{id}\<close> ends either at
  \<^verbatim>\<open>authorizeAdminAccess\<close> with a denial or before it at \<^verbatim>\<open>validateCourseId\<close>; in each
  case no model function is called and the state is unchanged. The decision matrix
  denies both operations to the principal.
\<close>

theorem create_delete_admin_only:
  assumes "credentials req = Some cred"
      and "resolveIdentity cred = Some (uid, r)"
      and "r \<noteq> Admin"
  shows "(req_method req = POST \<and> req_path req = [] \<longrightarrow>
            dispatch (spec_env resolveIdentity base) req st =
              (Halted AuthorizeAdminAccess (Denied InsufficientRole),
               [Passed RequireAuthentication, Stopped AuthorizeAdminAccess], st))
       \<and> (\<forall>cid. req_method req = DELETE \<and> req_path req = [cid] \<and> cid \<noteq> [] \<longrightarrow>
            dispatch (spec_env resolveIdentity base) req st =
              (Halted AuthorizeAdminAccess (Denied InsufficientRole),
               [Passed RequireAuthentication, Passed ValidateCourseId,
                Stopped AuthorizeAdminAccess], st)
          \<or> (\<exists>rj. dispatch (spec_env resolveIdentity base) req st =
              (Halted ValidateCourseId rj,
               [Passed RequireAuthentication, Stopped ValidateCourseId], st)))
       \<and> authorize (uid, r) CreateCourse c = Deny InsufficientRole
       \<and> authorize (uid, r) DeleteCourse c = Deny InsufficientRole"
proof (intro conjI allI impI)
  assume "req_method req = POST \<and> req_path req = []"
  then show "dispatch (spec_env resolveIdentity base) req st =
              (Halted AuthorizeAdminAccess (Denied InsufficientRole),
               [Passed RequireAuthentication, Stopped AuthorizeAdminAccess], st)"
    using assms
    by (simp add: dispatch_def router_def handles_method_def run_mw_def spec_env_def
          spec_check_def requireAuthentication_def authorizeAdminAccess_def)
next
  fix cid assume "req_method req = DELETE \<and> req_path req = [cid] \<and> cid \<noteq> []"
  then show "dispatch (spec_env resolveIdentity base) req st =
              (Halted AuthorizeAdminAccess (Denied InsufficientRole),
               [Passed RequireAuthentication, Passed ValidateCourseId,
                Stopped AuthorizeAdminAccess], st)
          \<or> (\<exists>rj. dispatch (spec_env resolveIdentity base) req st =
              (Halted ValidateCourseId rj,
               [Passed RequireAuthentication, Stopped ValidateCourseId], st))"
    using assms
    by (cases "check base ValidateCourseId st
                 (req\<lparr>params := [(''courseId'', cid)], user := Some (uid, r)\<rparr>)")
       (simp_all add: dispatch_def router_def handles_method_def run_mw_def spec_env_def
          spec_check_def requireAuthentication_def authorizeAdminAccess_def)
next
  show "authorize (uid, r) CreateCourse c = Deny InsufficientRole"
    using assms(3) by (cases r) simp_all
  show "authorize (uid, r) DeleteCourse c = Deny InsufficientRole"
    using assms(3) by (cases r) simp_all
qed

theorem create_delete_admin_only_witness:
  "credentials (demo_request POST [] (Some ''token-I'')) = Some ''token-I''
   \<and> credentials (demo_request DELETE [''C''] (Some ''token-I'')) = Some ''token-I''
   \<and> demo_identity ''token-I'' = Some (''I'', Instructor)
   \<and> Instructor \<noteq> Admin
   \<and> dispatch demo_env (demo_request POST [] (Some ''token-I'')) demo_state =
        (Halted AuthorizeAdminAccess (Denied InsufficientRole),
         [Passed RequireAuthentication, Stopped AuthorizeAdminAccess], demo_state)
   \<and> outcome_of (dispatch demo_env (demo_request DELETE [''C''] (Some ''token-I'')) demo_state) =
        Halted AuthorizeAdminAccess (Denied InsufficientRole)
   \<and> trace_of (dispatch demo_env (demo_request DELETE [''C''] (Some ''token-I'')) demo_state) =
        [Passed RequireAuthentication, Passed ValidateCourseId, Stopped AuthorizeAdminAccess]
   \<and> state_of (dispatch demo_env (demo_request DELETE [''C''] (Some ''token-I'')) demo_state) =
        demo_state"
proof -
  have c1: "credentials (demo_request POST [] (Some ''token-I'')) = Some ''token-I''"
    and c2: "credentials (demo_request DELETE [''C''] (Some ''token-I'')) = Some ''token-I''"
    by (simp_all add: demo_request_def)
  have i: "demo_identity ''token-I'' = Some (''I'', Instructor)"
    by (simp add: demo_identity_def)
  have r: "Instructor \<noteq> Admin"
    by simp
  have post: "req_method (demo_request POST [] (Some ''token-I'')) = POST
              \<and> req_path (demo_request POST [] (Some ''token-I'')) = []"
    by (simp add: demo_request_def)
  have del: "req_method (demo_request DELETE [''C''] (Some ''token-I'')) = DELETE
             \<and> req_path (demo_request DELETE [''C''] (Some ''token-I'')) = [''C''] \<and> ''C'' \<noteq> []"
    by (simp add: demo_request_def)
  have a: "dispatch demo_env (demo_request POST [] (Some ''token-I'')) demo_state =
        (Halted AuthorizeAdminAccess (Denied InsufficientRole),
         [Passed RequireAuthentication, Stopped AuthorizeAdminAccess], demo_state)"
    using create_delete_admin_only[where resolveIdentity = demo_identity and base = plain_env
            and st = demo_state, OF c1 i r] post
    unfolding demo_env_def by blast
  have o: "outcome_of (dispatch demo_env (demo_request DELETE [''C''] (Some ''token-I'')) demo_state)
             = Halted AuthorizeAdminAccess (Denied InsufficientRole)"
    by code_simp
  have "dispatch demo_env (demo_request DELETE [''C''] (Some ''token-I'')) demo_state =
              (Halted AuthorizeAdminAccess (Denied InsufficientRole),
               [Passed RequireAuthentication, Passed ValidateCourseId,
                Stopped AuthorizeAdminAccess], demo_state)
          \<or> (\<exists>rj. dispatch demo_env (demo_request DELETE [''C''] (Some ''token-I'')) demo_state =
              (Halted ValidateCourseId rj,
               [Passed RequireAuthentication, Stopped ValidateCourseId], demo_state))"
    using create_delete_admin_only[where resolveIdentity = demo_identity and base = plain_env
            and st = demo_state, OF c2 i r] del
    unfolding demo_env_def by blast
  with o have b: "dispatch demo_env (demo_request DELETE [''C''] (Some ''token-I'')) demo_state =
              (Halted AuthorizeAdminAccess (Denied InsufficientRole),
               [Passed RequireAuthentication, Passed ValidateCourseId,
                Stopped AuthorizeAdminAccess], demo_state)"
    by (auto simp: outcome_of_def)
  from c1 c2 i r a b o show ?thesis
    by (simp add: trace_of_def state_of_def)
qed

text \<open>
  C7. The enrollment mutator is never reached by an unauthorized request: for every
  request and whatever the collaborators do, when \<^verbatim>\<open>updateEnrollment\<close> is called, the
  events before the call include that \<^verbatim>\<open>requireAuthentication\<close> passed and that
  \<^verbatim>\<open>authorizeCourseRelatedAccess\<close> passed.
\<close>

theorem enrollment_only_after_authorization:
  "before_enrollment (trace_of (dispatch e req st)) = Some pre \<Longrightarrow>
     Passed RequireAuthentication \<in> set pre \<and> Passed AuthorizeCourseRelatedAccess \<in> set pre"
proof -
  assume "before_enrollment (trace_of (dispatch e req st)) = Some pre"
  then obtain m pat mws where
    "Route m pat mws PostStudents \<in> set router" "pre = map Passed mws"
    using dispatch_from_enrollment[of e router req st pre] by (auto simp: dispatch_def)
  then show ?thesis by (auto simp: router_def)
qed

theorem enrollment_only_after_authorization_witness:
  "before_enrollment (trace_of (dispatch demo_env (demo_enroll [''D''] [''A'']) demo_state)) =
     Some [Passed RequireAuthentication, Passed ValidateCourseId,
           Passed AuthorizeCourseRelatedAccess, Passed ValidateEnrollmentBody]
   \<and> Passed RequireAuthentication \<in>
        set [Passed RequireAuthentication, Passed ValidateCourseId,
             Passed AuthorizeCourseRelatedAccess, Passed ValidateEnrollmentBody]
   \<and> Passed AuthorizeCourseRelatedAccess \<in>
        set [Passed RequireAuthentication, Passed ValidateCourseId,
             Passed AuthorizeCourseRelatedAccess, Passed ValidateEnrollmentBody]"
proof -
  have h: "before_enrollment
             (trace_of (dispatch demo_env (demo_enroll [''D''] [''A'']) demo_state)) =
           Some [Passed RequireAuthentication, Passed ValidateCourseId,
                 Passed AuthorizeCourseRelatedAccess, Passed ValidateEnrollmentBody]"
    by code_simp
  from enrollment_only_after_authorization[OF h] h show ?thesis by blast
qed

section \<open>The roster export\<close>

text \<open>
  C8. The roster export is deterministic and idempotent: exporting the roster of a
  course a second time, with the state as the first export left it, returns the same
  address and leaves the same state, so the artifact is byte for byte the same; and the
  artifact consists of the header and one row per enrolled student, the rows in
  strictly ascending order of the student identifiers.
\<close>

theorem roster_export_idempotent_sorted:
  "createCsv cid (snd (createCsv cid st)) = createCsv cid st
   \<and> (\<forall>c. courses st cid = Some c \<longrightarrow>
        (\<exists>rows. rosters (snd (createCsv cid st)) (roster_file cid) = Some (csv_text rows)
           \<and> buildRoster cid st = Inr rows
           \<and> sorted (map fst rows) \<and> distinct (map fst rows)
           \<and> set (map fst rows) = fset (students c)))"
proof (intro conjI allI impI)
  show "createCsv cid (snd (createCsv cid st)) = createCsv cid st"
    by (cases "buildRoster cid st") (simp_all add: createCsv_def buildRoster_rosters)
next
  fix c assume c: "courses st cid = Some c"
  let ?rows = "map (display st) (sorted_list_of_fset (students c))"
  have b: "buildRoster cid st = Inr ?rows" using c by (simp add: buildRoster_def)
  have m: "map fst ?rows = sorted_list_of_fset (students c)"
    by (simp add: comp_def fst_display)
  have "rosters (snd (createCsv cid st)) (roster_file cid) = Some (csv_text ?rows)"
    using b by (simp add: createCsv_def)
  moreover have "sorted (map fst ?rows)" "distinct (map fst ?rows)"
      "set (map fst ?rows) = fset (students c)"
    unfolding m by (simp_all add: sorted_list_of_fset.rep_eq)
  ultimately show "\<exists>rows. rosters (snd (createCsv cid st)) (roster_file cid) = Some (csv_text rows)
           \<and> buildRoster cid st = Inr rows
           \<and> sorted (map fst rows) \<and> distinct (map fst rows)
           \<and> set (map fst rows) = fset (students c)"
    using b by blast
qed

theorem roster_export_idempotent_sorted_witness:
  "courses demo_state ''C'' = Some demo_course
   \<and> buildRoster ''C'' demo_state =
        Inr [(''A'', ''Ada'', ''ada@example.org''), (''B'', ''Bo'', ''bo@example.org'')]
   \<and> rosters (snd (createCsv ''C'' demo_state)) (roster_file ''C'') =
        Some (csv_text [(''A'', ''Ada'', ''ada@example.org''), (''B'', ''Bo'', ''bo@example.org'')])
   \<and> sorted (map fst [(''A'', ''Ada'', ''ada@example.org''), (''B'', ''Bo'', ''bo@example.org'')])
   \<and> createCsv ''C'' (snd (createCsv ''C'' demo_state)) = createCsv ''C'' demo_state"
proof -
  have h: "courses demo_state ''C'' = Some demo_course"
    by (simp add: demo_state_def)
  have b: "buildRoster ''C'' demo_state =
        Inr [(''A'', ''Ada'', ''ada@example.org''), (''B'', ''Bo'', ''bo@example.org'')]"
    by code_simp
  from roster_export_idempotent_sorted[of "''C''" demo_state] h
  obtain rows where
    "rosters (snd (createCsv ''C'' demo_state)) (roster_file ''C'') = Some (csv_text rows)"
    "buildRoster ''C'' demo_state = Inr rows" "sorted (map fst rows)"
    "createCsv ''C'' (snd (createCsv ''C'' demo_state)) = createCsv ''C'' demo_state"
    by blast
  with h b show ?thesis by simp
qed

text \<open>
  C9. An exported roster is retrievable with no access control. Once \<^verbatim>\<open>createCsv\<close> has
  written the roster of a course, every \<^verbatim>\<open>GET\<close> request for the file below
  \<^verbatim>\<open>/courses/roster\<close> is answered by \<^verbatim>\<open>express.static\<close> with the artifact, whatever
  credentials or identity context the request carries and also when it carries none:
  the only event of the request is the static delivery, so neither
  \<^verbatim>\<open>requireAuthentication\<close> nor an authorization middleware runs. The course identifier
  is one that makes a servable file name: it is not empty and does not begin with a dot.
\<close>

theorem exported_roster_served_to_anyone:
  assumes "createCsv cid st = (Inr url, st')"
      and "hd (cid @ ''.csv'') \<noteq> CHR ''.''"
      and "req_method req = GET"
      and "req_path req = [m, cid @ ''.csv'']"
      and "lower m = ''roster''"
  shows "\<exists>rows. buildRoster cid st = Inr rows
           \<and> dispatch (spec_env resolveIdentity base) req st' =
               (File (csv_text rows), [Served [cid @ ''.csv'']], st')"
proof -
  obtain rows where b: "buildRoster cid st = Inr rows"
    using assms(1) by (cases "buildRoster cid st") (auto simp: createCsv_def)
  have st': "st' = st\<lparr>rosters := (rosters st)(roster_file cid \<mapsto> csv_text rows)\<rparr>"
    using assms(1) b by (simp add: createCsv_def)
  have "\<not> dotfile [cid @ ''.csv'']"
    using assms(2) by (simp add: dotfile_def)
  then have served: "static (spec_env resolveIdentity base) st' [cid @ ''.csv''] = Some (csv_text rows)"
    by (simp add: spec_env_def serve_static_def st' roster_file_def)
  have "dispatch (spec_env resolveIdentity base) req st' =
          (File (csv_text rows), [Served [cid @ ''.csv'']], st')"
    using assms(3) assms(4) assms(5) _ _ served
  proof (rule static_layer_reached)
    show "[cid @ ''.csv''] \<noteq> []" by simp
    show "\<forall>s. [cid @ ''.csv''] = [s] \<longrightarrow> lower s \<noteq> ''students''"
      using csv_name_not_students by auto
  qed
  with b show ?thesis by blast
qed

theorem exported_roster_served_to_anyone_witness:
  "createCsv ''C'' demo_state = (Inr (JStr ''/courses/roster/C.csv''), demo_exported)
   \<and> hd (''C'' @ ''.csv'') \<noteq> CHR ''.''
   \<and> req_method (demo_request GET [''roster'', ''C.csv''] None) = GET
   \<and> req_path (demo_request GET [''roster'', ''C.csv''] None) = [''roster'', ''C'' @ ''.csv'']
   \<and> lower ''roster'' = ''roster''
   \<and> credentials (demo_request GET [''roster'', ''C.csv''] None) = None
   \<and> dispatch demo_env (demo_request GET [''roster'', ''C.csv''] None) demo_exported =
        (File (csv_text [(''A'', ''Ada'', ''ada@example.org''), (''B'', ''Bo'', ''bo@example.org'')]),
         [Served [''C.csv'']], demo_exported)"
proof -
  have f: "fst (createCsv ''C'' demo_state) = Inr (JStr ''/courses/roster/C.csv'')"
    by code_simp
  then have h1: "createCsv ''C'' demo_state = (Inr (JStr ''/courses/roster/C.csv''), demo_exported)"
    unfolding demo_exported_def by (cases "createCsv ''C'' demo_state") simp
  have h2: "hd (''C'' @ ''.csv'') \<noteq> CHR ''.''"
    by simp
  have h3: "req_method (demo_request GET [''roster'', ''C.csv''] None) = GET"
    and h4: "req_path (demo_request GET [''roster'', ''C.csv''] None) = [''roster'', ''C'' @ ''.csv'']"
    and h6: "credentials (demo_request GET [''roster'', ''C.csv''] None) = None"
    by (simp_all add: demo_request_def)
  have h5: "lower ''roster'' = ''roster''"
    by code_simp
  have b: "buildRoster ''C'' demo_state =
        Inr [(''A'', ''Ada'', ''ada@example.org''), (''B'', ''Bo'', ''bo@example.org'')]"
    by code_simp
  from exported_roster_served_to_anyone[OF h1 h2 h3 h4 h5, of demo_identity plain_env] b
  have "dispatch demo_env (demo_request GET [''roster'', ''C.csv''] None) demo_exported =
        (File (csv_text [(''A'', ''Ada'', ''ada@example.org''), (''B'', ''Bo'', ''bo@example.org'')]),
         [Served [''C.csv'']], demo_exported)"
    unfolding demo_env_def by auto
  with h1 h2 h3 h4 h5 h6 show ?thesis by blast
qed

section \<open>The page argument of the course listing\<close>

text \<open>
  C10. For a \<^verbatim>\<open>GET /courses\<close> request the only event is the call of \<^verbatim>\<open>getCoursePage\<close>,
  and its page argument is 1 when the \<^verbatim>\<open>page\<close> parameter is absent, when \<^verbatim>\<open>parseInt\<close>
  gives \<^verbatim>\<open>NaN\<close> for it, and when \<^verbatim>\<open>parseInt\<close> gives 0; every other integer that
  \<^verbatim>\<open>parseInt\<close> gives, negative ones included, is passed as it is.
\<close>

theorem list_courses_page_argument:
  assumes "req_method req = GET" and "req_path req = []"
  shows "trace_of (dispatch e req st) =
           [Called (GetCoursePage
              (case map_of (query req) ''page'' of
                 None \<Rightarrow> Num 1
               | Some v \<Rightarrow>
                   (case parseInt (Some v) of
                      NaN \<Rightarrow> Num 1
                    | Num n \<Rightarrow> if n = 0 then Num 1 else Num n))
              (map_of (query req) ''subject'')
              (map_of (query req) ''number'')
              (map_of (query req) ''term''))]"
proof -
  have absent: "parseInt None = NaN"
    by code_simp
  have "or_one (parseInt (map_of (query req) ''page'')) =
          (case map_of (query req) ''page'' of
             None \<Rightarrow> Num 1
           | Some v \<Rightarrow>
               (case parseInt (Some v) of
                  NaN \<Rightarrow> Num 1
                | Num n \<Rightarrow> if n = 0 then Num 1 else Num n))"
    by (auto simp: or_one_def absent split: option.splits jsnum.splits)
  then show ?thesis using assms
    by (simp add: dispatch_def router_def handles_method_def trace_of_def call_def
             split: prod.splits sum.splits)
qed

theorem list_courses_page_argument_witness:
  "req_method ((demo_request GET [] None)\<lparr>query := [(''page'', QStr ''-3'')]\<rparr>) = GET
   \<and> req_path ((demo_request GET [] None)\<lparr>query := [(''page'', QStr ''-3'')]\<rparr>) = []
   \<and> trace_of (dispatch demo_env
        ((demo_request GET [] None)\<lparr>query := [(''page'', QStr ''-3'')]\<rparr>) demo_state) =
        [Called (GetCoursePage (Num (- 3)) None None None)]
   \<and> trace_of (dispatch demo_env
        ((demo_request GET [] None)\<lparr>query := [(''page'', QStr ''0'')]\<rparr>) demo_state) =
        [Called (GetCoursePage (Num 1) None None None)]
   \<and> trace_of (dispatch demo_env
        ((demo_request GET [] None)\<lparr>query := [(''page'', QStr ''two'')]\<rparr>) demo_state) =
        [Called (GetCoursePage (Num 1) None None None)]
   \<and> trace_of (dispatch demo_env (demo_request GET [] None) demo_state) =
        [Called (GetCoursePage (Num 1) None None None)]"
proof -
  let ?req = "\<lambda>q. (demo_request GET [] None)\<lparr>query := q\<rparr>"
  have m: "\<And>q. req_method (?req q) = GET" and p: "\<And>q. req_path (?req q) = []"
    by (simp_all add: demo_request_def)
  have p3: "parseInt (Some (QStr ''-3'')) = Num (- 3)"
    and p0: "parseInt (Some (QStr ''0'')) = Num 0"
    and pt: "parseInt (Some (QStr ''two'')) = NaN"
    by code_simp+
  have a: "trace_of (dispatch demo_env (?req [(''page'', QStr ''-3'')]) demo_state) =
             [Called (GetCoursePage (Num (- 3)) None None None)]"
    using list_courses_page_argument[OF m p, of demo_env "[(''page'', QStr ''-3'')]" demo_state]
    by (simp add: p3)
  have b: "trace_of (dispatch demo_env (?req [(''page'', QStr ''0'')]) demo_state) =
             [Called (GetCoursePage (Num 1) None None None)]"
    using list_courses_page_argument[OF m p, of demo_env "[(''page'', QStr ''0'')]" demo_state]
    by (simp add: p0)
  have c: "trace_of (dispatch demo_env (?req [(''page'', QStr ''two'')]) demo_state) =
             [Called (GetCoursePage (Num 1) None None None)]"
    using list_courses_page_argument[OF m p, of demo_env "[(''page'', QStr ''two'')]" demo_state]
    by (simp add: pt)
  have d: "trace_of (dispatch demo_env (demo_request GET [] None) demo_state) =
             [Called (GetCoursePage (Num 1) None None None)]"
    using list_courses_page_argument[of "demo_request GET [] None" demo_env demo_state]
    by (simp add: demo_request_def)
  from m p a b c d show ?thesis by simp
qed

end
